theory Spec2Isabelle
  imports Complex_Main
begin

section \<open>The environment module: air quality index and health risks\<close>

text \<open>
  A shallow embedding of \<^verbatim>\<open>src/js/environment.js\<close> (class
  \<^verbatim>\<open>EnvironmentalDataManager\<close>): the breakpoint tables, the interpolation
  \<^verbatim>\<open>calculateAQIFromBreakpoints\<close>, the aggregation \<^verbatim>\<open>calculateAQI\<close>,
  \<^verbatim>\<open>getAQICategory\<close>, \<^verbatim>\<open>calculateHealthRisks\<close>,
  \<^verbatim>\<open>generateHealthRecommendations\<close> and \<^verbatim>\<open>generateForecasts\<close>.
\<close>

subsection \<open>Numbers\<close>

text \<open>
  A JavaScript number is modelled as an exact rational: the decimal constants of the
  tables (\<open>12.1\<close>, \<open>35.4\<close>, ...) stand for their decimal values and arithmetic does not
  round. A concentration argument is a \<open>rat option\<close>: \<open>None\<close> is an argument that was not
  supplied (\<^verbatim>\<open>undefined\<close>), which JavaScript converts to \<^verbatim>\<open>NaN\<close> in a
  comparison, so every comparison with it is false.
\<close>

type_synonym jsnumber = "rat option"

definition js_ge :: "jsnumber \<Rightarrow> rat \<Rightarrow> bool" where
  "js_ge x y = (case x of None \<Rightarrow> False | Some v \<Rightarrow> v \<ge> y)"

definition js_le :: "jsnumber \<Rightarrow> rat \<Rightarrow> bool" where
  "js_le x y = (case x of None \<Rightarrow> False | Some v \<Rightarrow> v \<le> y)"

definition js_gt :: "jsnumber \<Rightarrow> rat \<Rightarrow> bool" where
  "js_gt x y = (case x of None \<Rightarrow> False | Some v \<Rightarrow> v > y)"

text \<open>\<^verbatim>\<open>Math.round\<close> rounds to the nearest integer, a half towards plus infinity.\<close>

definition Math_round :: "rat \<Rightarrow> int" where
  "Math_round x = \<lfloor>x + 1 / 2\<rfloor>"

text \<open>
  What a sub-index computation returns: an integer, or \<^verbatim>\<open>NaN\<close> (from a bracket of
  width zero, where the interpolation divides by zero and multiplies by zero). Reading
  a field of the last entry of an empty table throws a \<^verbatim>\<open>TypeError\<close>.
\<close>

datatype aqi_value = AQI int | NaN

datatype js_error = TypeError

definition bind_js :: "js_error + 'a \<Rightarrow> ('a \<Rightarrow> js_error + 'b) \<Rightarrow> js_error + 'b" where
  "bind_js r f = (case r of Inl e \<Rightarrow> Inl e | Inr v \<Rightarrow> f v)"

fun max_js :: "aqi_value \<Rightarrow> aqi_value \<Rightarrow> aqi_value" where
  "max_js (AQI a) (AQI b) = AQI (max a b)"
| "max_js _ _ = NaN"

text \<open>\<^verbatim>\<open>Math.max\<close> of six numbers: \<^verbatim>\<open>NaN\<close> as soon as one argument is.\<close>

definition Math_max6 ::
  "aqi_value \<Rightarrow> aqi_value \<Rightarrow> aqi_value \<Rightarrow> aqi_value \<Rightarrow> aqi_value \<Rightarrow> aqi_value \<Rightarrow> aqi_value" where
  "Math_max6 a b c d e f = max_js a (max_js b (max_js c (max_js d (max_js e f))))"

subsection \<open>Breakpoint tables\<close>

record breakpoint =
  min_conc :: rat
  max_conc :: rat
  minAQI :: int
  maxAQI :: int

definition bp :: "rat \<Rightarrow> rat \<Rightarrow> int \<Rightarrow> int \<Rightarrow> breakpoint" where
  "bp lo hi alo ahi = \<lparr>min_conc = lo, max_conc = hi, minAQI = alo, maxAQI = ahi\<rparr>"

definition breakpointsPM25 :: "breakpoint list" where
  "breakpointsPM25 =
    [bp 0 12 0 50, bp 12.1 35.4 51 100, bp 35.5 55.4 101 150,
     bp 55.5 150.4 151 200, bp 150.5 250.4 201 300, bp 250.5 500.4 301 500]"

definition breakpointsPM10 :: "breakpoint list" where
  "breakpointsPM10 =
    [bp 0 54 0 50, bp 55 154 51 100, bp 155 254 101 150,
     bp 255 354 151 200, bp 355 424 201 300, bp 425 604 301 500]"

definition breakpointsNO2 :: "breakpoint list" where
  "breakpointsNO2 =
    [bp 0 53 0 50, bp 54 100 51 100, bp 101 360 101 150,
     bp 361 649 151 200, bp 650 1249 201 300, bp 1250 2049 301 500]"

definition breakpointsSO2 :: "breakpoint list" where
  "breakpointsSO2 =
    [bp 0 35 0 50, bp 36 75 51 100, bp 76 185 101 150,
     bp 186 304 151 200, bp 305 604 201 300, bp 605 1004 301 500]"

definition breakpointsCO :: "breakpoint list" where
  "breakpointsCO =
    [bp 0 4.4 0 50, bp 4.5 9.4 51 100, bp 9.5 12.4 101 150,
     bp 12.5 15.4 151 200, bp 15.5 30.4 201 300, bp 30.5 50.4 301 500]"

definition breakpointsO3 :: "breakpoint list" where
  "breakpointsO3 =
    [bp 0 54 0 50, bp 55 70 51 100, bp 71 85 101 150,
     bp 86 105 151 200, bp 106 200 201 300, bp 201 504 301 500]"

subsection \<open>Interpolation\<close>

text \<open>The linear interpolation formula of the loop body, before rounding.\<close>

definition interpolate :: "breakpoint \<Rightarrow> rat \<Rightarrow> rat" where
  "interpolate b c =
     ((of_int (maxAQI b) - of_int (minAQI b)) / (max_conc b - min_conc b))
       * (c - min_conc b) + of_int (minAQI b)"

text \<open>
  The \<^verbatim>\<open>for ... of\<close> loop: the first bracket whose closed range holds the
  concentration ends the function with the rounded interpolation; \<open>None\<close> is the loop
  running to its end. The guard holds for a supplied number only, so \<open>the\<close> is applied
  to \<open>Some\<close>.
\<close>

fun scanBreakpoints :: "jsnumber \<Rightarrow> breakpoint list \<Rightarrow> aqi_value option" where
  "scanBreakpoints concentration [] = None"
| "scanBreakpoints concentration (b # rest) =
     (if js_ge concentration (min_conc b) \<and> js_le concentration (max_conc b)
      then (if max_conc b = min_conc b then Some NaN
            else Some (AQI (Math_round (interpolate b (the concentration)))))
      else scanBreakpoints concentration rest)"

definition calculateAQIFromBreakpoints :: "jsnumber \<Rightarrow> breakpoint list \<Rightarrow> js_error + aqi_value" where
  "calculateAQIFromBreakpoints concentration breakpoints =
     (case scanBreakpoints concentration breakpoints of
        Some aqi \<Rightarrow> Inr aqi
      | None \<Rightarrow>
          if breakpoints = [] then Inl TypeError
          else if js_gt concentration (max_conc (last breakpoints))
          then Inr (AQI (maxAQI (last breakpoints)))
          else Inr (AQI 0))"

definition calculatePM25AQI :: "jsnumber \<Rightarrow> js_error + aqi_value" where
  "calculatePM25AQI concentration = calculateAQIFromBreakpoints concentration breakpointsPM25"

definition calculatePM10AQI :: "jsnumber \<Rightarrow> js_error + aqi_value" where
  "calculatePM10AQI concentration = calculateAQIFromBreakpoints concentration breakpointsPM10"

definition calculateNO2AQI :: "jsnumber \<Rightarrow> js_error + aqi_value" where
  "calculateNO2AQI concentration = calculateAQIFromBreakpoints concentration breakpointsNO2"

definition calculateSO2AQI :: "jsnumber \<Rightarrow> js_error + aqi_value" where
  "calculateSO2AQI concentration = calculateAQIFromBreakpoints concentration breakpointsSO2"

definition calculateCOAQI :: "jsnumber \<Rightarrow> js_error + aqi_value" where
  "calculateCOAQI concentration = calculateAQIFromBreakpoints concentration breakpointsCO"

definition calculateO3AQI :: "jsnumber \<Rightarrow> js_error + aqi_value" where
  "calculateO3AQI concentration = calculateAQIFromBreakpoints concentration breakpointsO3"

text \<open>
  The source has one function per pollutant; \<open>computeSubIndex\<close> names the choice among
  them, and \<open>breakpoints\<close> the table each of them holds.
\<close>

datatype pollutant = PM25 | PM10 | NO2 | SO2 | CO | O3

fun breakpoints :: "pollutant \<Rightarrow> breakpoint list" where
  "breakpoints PM25 = breakpointsPM25"
| "breakpoints PM10 = breakpointsPM10"
| "breakpoints NO2 = breakpointsNO2"
| "breakpoints SO2 = breakpointsSO2"
| "breakpoints CO = breakpointsCO"
| "breakpoints O3 = breakpointsO3"

fun computeSubIndex :: "pollutant \<Rightarrow> jsnumber \<Rightarrow> js_error + aqi_value" where
  "computeSubIndex PM25 c = calculatePM25AQI c"
| "computeSubIndex PM10 c = calculatePM10AQI c"
| "computeSubIndex NO2 c = calculateNO2AQI c"
| "computeSubIndex SO2 c = calculateSO2AQI c"
| "computeSubIndex CO c = calculateCOAQI c"
| "computeSubIndex O3 c = calculateO3AQI c"

subsection \<open>Aggregation and category\<close>

definition calculateAQI ::
  "jsnumber \<Rightarrow> jsnumber \<Rightarrow> jsnumber \<Rightarrow> jsnumber \<Rightarrow> jsnumber \<Rightarrow> jsnumber \<Rightarrow> js_error + aqi_value" where
  "calculateAQI pm25 pm10 no2 so2 co o3 =
     bind_js (calculatePM25AQI pm25) (\<lambda>pm25AQI.
     bind_js (calculatePM10AQI pm10) (\<lambda>pm10AQI.
     bind_js (calculateNO2AQI no2) (\<lambda>no2AQI.
     bind_js (calculateSO2AQI so2) (\<lambda>so2AQI.
     bind_js (calculateCOAQI co) (\<lambda>coAQI.
     bind_js (calculateO3AQI o3) (\<lambda>o3AQI.
       Inr (Math_max6 pm25AQI pm10AQI no2AQI so2AQI coAQI o3AQI)))))))"

text \<open>
  The AQI handed to \<^verbatim>\<open>getAQICategory\<close> is an integer: a result of
  \<^verbatim>\<open>calculateAQI\<close> or of \<^verbatim>\<open>Math.max(0, Math.round(...))\<close>.
\<close>

definition getAQICategory :: "int \<Rightarrow> string" where
  "getAQICategory aqi =
     (if aqi \<le> 50 then ''good''
      else if aqi \<le> 100 then ''moderate''
      else if aqi \<le> 150 then ''unhealthy_for_sensitive''
      else if aqi \<le> 200 then ''unhealthy''
      else if aqi \<le> 300 then ''very_unhealthy''
      else ''hazardous'')"

subsection \<open>Health risks\<close>

text \<open>The object \<^verbatim>\<open>riskFactors\<close>, in the order of its keys.\<close>

definition riskFactors :: "(string \<times> rat) list" where
  "riskFactors =
     [(''general'', 1.0), (''elderly'', 1.5), (''children'', 1.3),
      (''respiratory'', 2.0), (''cardiovascular'', 1.8)]"

text \<open>
  The \<^verbatim>\<open>switch\<close> on the risk level has no default, so an unknown level adds no
  general message; the chain of \<^verbatim>\<open>else if\<close> on the group has no final
  \<^verbatim>\<open>else\<close>, so an unknown group (and \<^verbatim>\<open>general\<close>) adds nothing.
\<close>

definition generateHealthRecommendations :: "string \<Rightarrow> string \<Rightarrow> string list" where
  "generateHealthRecommendations riskLevel demographicGroup =
     (let recommendations =
        (if riskLevel = ''minimal'' then
           [''Air quality is good. No special precautions needed.'']
         else if riskLevel = ''low'' then
           [''Air quality is acceptable. Unusually sensitive individuals should consider reducing prolonged outdoor exertion.'']
         else if riskLevel = ''moderate'' then
           [''Members of sensitive groups may experience health effects. The general public is less likely to be affected.'',
            ''Consider reducing prolonged or heavy outdoor exertion.'']
         else if riskLevel = ''high'' then
           [''Everyone may begin to experience health effects. Members of sensitive groups may experience more serious effects.'',
            ''Avoid prolonged or heavy outdoor exertion. Consider moving activities indoors or rescheduling.'']
         else if riskLevel = ''very_high'' then
           [''Health alert: The risk of health effects is increased for everyone.'',
            ''Avoid all outdoor physical activity. Stay indoors with windows closed if possible.'']
         else if riskLevel = ''severe'' then
           [''Health warning of emergency conditions: everyone is more likely to be affected.'',
            ''Remain indoors with windows closed. If available, use air purifiers.'',
            ''Wear N95 masks if outdoor activity is unavoidable.'']
         else [])
      in
        if demographicGroup = ''elderly'' \<and> riskLevel \<noteq> ''minimal'' then
          recommendations
          @ [''Elderly individuals should take extra precautions to limit exposure.'']
          @ (if riskLevel = ''high'' \<or> riskLevel = ''very_high'' \<or> riskLevel = ''severe''
             then [''Consider checking in with healthcare provider if respiratory symptoms develop.'']
             else [])
        else if demographicGroup = ''children'' \<and> riskLevel \<noteq> ''minimal'' then
          recommendations
          @ [''Children should reduce outdoor play time.'']
          @ (if riskLevel = ''high'' \<or> riskLevel = ''very_high'' \<or> riskLevel = ''severe''
             then [''Keep children indoors with windows closed.'']
             else [])
        else if demographicGroup = ''respiratory'' \<and> riskLevel \<noteq> ''minimal'' then
          recommendations
          @ [''Individuals with respiratory conditions should have medication readily available.'']
          @ (if riskLevel = ''moderate'' \<or> riskLevel = ''high''
             then [''Consider using a mask (N95 or better) when outdoors.'']
             else [])
          @ (if riskLevel = ''very_high'' \<or> riskLevel = ''severe''
             then [''Stay indoors and use air purifiers if available.'',
                   ''Contact healthcare provider if symptoms worsen.'']
             else [])
        else if demographicGroup = ''cardiovascular'' \<and> riskLevel \<noteq> ''minimal'' then
          recommendations
          @ [''Individuals with cardiovascular conditions should avoid physical exertion.'']
          @ (if riskLevel = ''high'' \<or> riskLevel = ''very_high'' \<or> riskLevel = ''severe''
             then [''Stay in air-conditioned environments when possible.'',
                   ''Monitor blood pressure and contact healthcare provider if unusual symptoms occur.'']
             else [])
        else recommendations)"

record risk =
  level :: string
  score :: int
  recommendations :: "string list"

text \<open>
  The body of the loop over the groups in \<^verbatim>\<open>calculateHealthRisks\<close>, for the AQI
  of one sensor, one group \<open>grp\<close> and its factor.
\<close>

definition groupRisk :: "int \<Rightarrow> string \<Rightarrow> rat \<Rightarrow> risk" where
  "groupRisk aqi grp factor =
     (let riskLevel =
        (if aqi \<le> 50 then ''minimal''
         else if aqi \<le> 100 then ''low''
         else if aqi \<le> 150 then ''moderate''
         else if aqi \<le> 200 then ''high''
         else if aqi \<le> 300 then ''very_high''
         else ''severe'');
      riskScore =
        (if riskLevel = ''minimal'' then 10
         else if riskLevel = ''low'' then 30
         else if riskLevel = ''moderate'' then 50
         else if riskLevel = ''high'' then 70
         else if riskLevel = ''very_high'' then 85
         else if riskLevel = ''severe'' then 100
         else (0::int));
      riskScore' = min 100 (Math_round (of_int riskScore * factor))
      in \<lparr>level = riskLevel, score = riskScore',
          recommendations = generateHealthRecommendations riskLevel grp\<rparr>)"

text \<open>The object \<^verbatim>\<open>risks\<close> of one sensor: one entry per key of \<^verbatim>\<open>riskFactors\<close>.\<close>

definition sensorRisks :: "int \<Rightarrow> (string \<times> risk) list" where
  "sensorRisks aqi = map (\<lambda>(grp, factor). (grp, groupRisk aqi grp factor)) riskFactors"

record sensor =
  sensor_id :: string
  location_name :: string
  aqi_value :: int
  aqi_category :: string

record health_risk =
  hr_location :: string
  hr_aqi :: int
  hr_aqiCategory :: string
  hr_risks :: "(string \<times> risk) list"

text \<open>
  \<^verbatim>\<open>calculateHealthRisks\<close> stores one record per sensor under the sensor's id (the
  time stamp of the record is left out).
\<close>

definition calculateHealthRisks ::
  "sensor list \<Rightarrow> (string \<rightharpoonup> health_risk) \<Rightarrow> (string \<rightharpoonup> health_risk)" where
  "calculateHealthRisks sensors healthRisks =
     fold (\<lambda>s hr. hr(sensor_id s \<mapsto>
              \<lparr>hr_location = location_name s, hr_aqi = aqi_value s,
               hr_aqiCategory = aqi_category s, hr_risks = sensorRisks (aqi_value s)\<rparr>))
          sensors healthRisks"

subsection \<open>Forecasts\<close>

record forecast_point =
  aqi :: int
  category :: string
  confidence :: int

text \<open>
  The body of the loop over the hours in \<^verbatim>\<open>generateForecasts\<close>. The two effects
  of an iteration are parameters: \<open>clock hour\<close> is the local hour of the
  \<^verbatim>\<open>new Date()\<close> of that iteration and \<open>random hour\<close> the value of its
  \<^verbatim>\<open>Math.random()\<close>. Adding \<open>hour\<close> hours to the date wraps around midnight. The
  time stamp of the point is left out.
\<close>

definition forecastHour :: "int \<Rightarrow> (nat \<Rightarrow> nat) \<Rightarrow> (nat \<Rightarrow> rat) \<Rightarrow> nat \<Rightarrow> forecast_point" where
  "forecastHour currentAQI clock random hour =
     (let hourOfDay = (clock hour + hour) mod 24;
          variation =
            (if hourOfDay \<ge> 7 \<and> hourOfDay \<le> 9 then 15
             else if hourOfDay \<ge> 16 \<and> hourOfDay \<le> 19 then 20
             else if hourOfDay \<ge> 22 \<or> hourOfDay \<le> 5 then -10
             else (0::rat));
          variation' = variation + (random hour - 0.5) * 15;
          forecastedAQI = max 0 (Math_round (of_int currentAQI + variation'))
      in \<lparr>aqi = forecastedAQI, category = getAQICategory forecastedAQI,
          confidence = Math_round (90 - (of_nat hour / 48) * 30)\<rparr>)"

function forecastLoop ::
  "int \<Rightarrow> (nat \<Rightarrow> nat) \<Rightarrow> (nat \<Rightarrow> rat) \<Rightarrow> nat \<Rightarrow> forecast_point list \<Rightarrow> forecast_point list" where
  "forecastLoop currentAQI clock random hour hourly =
     (if hour \<le> 48
      then forecastLoop currentAQI clock random (hour + 1)
             (hourly @ [forecastHour currentAQI clock random hour])
      else hourly)"
  by pat_completeness auto
termination
  by (relation "measure (\<lambda>(currentAQI, clock, random, hour, hourly). 49 - hour)") auto

text \<open>The array \<^verbatim>\<open>hourly\<close> of the forecast of one sensor.\<close>

definition hourlyForecast :: "int \<Rightarrow> (nat \<Rightarrow> nat) \<Rightarrow> (nat \<Rightarrow> rat) \<Rightarrow> forecast_point list" where
  "hourlyForecast currentAQI clock random = forecastLoop currentAQI clock random 1 []"

subsection \<open>Notions used in the statements\<close>

text \<open>A concentration lies in the closed range of a bracket.\<close>

definition inBracket :: "rat \<Rightarrow> breakpoint \<Rightarrow> bool" where
  "inBracket c b = (min_conc b \<le> c \<and> c \<le> max_conc b)"

text \<open>A bracket ends strictly before another one starts.\<close>

definition below :: "breakpoint \<Rightarrow> breakpoint \<Rightarrow> bool" where
  "below a b = (max_conc a < min_conc b)"

text \<open>
  A table is ordered when every bracket has a positive width and ends strictly before
  every later bracket starts.
\<close>

definition ordered :: "breakpoint list \<Rightarrow> bool" where
  "ordered bps = ((\<forall>b \<in> set bps. min_conc b < max_conc b) \<and> sorted_wrt below bps)"

text \<open>A concentration lies strictly between two adjacent brackets of a table.\<close>

fun inGap :: "rat \<Rightarrow> breakpoint list \<Rightarrow> bool" where
  "inGap c (b # b' # rest) = ((max_conc b < c \<and> c < min_conc b') \<or> inGap c (b' # rest))"
| "inGap c _ = False"

text \<open>A message mentions a word: the word is a contiguous part of it.\<close>

fun mentions :: "string \<Rightarrow> string \<Rightarrow> bool" where
  "mentions w [] = (w = [])"
| "mentions w (x # xs) = (take (length w) (x # xs) = w \<or> mentions w xs)"

text \<open>The six risk levels, and the groups: the keys of \<^verbatim>\<open>riskFactors\<close>.\<close>

definition riskLevels :: "string list" where
  "riskLevels = [''minimal'', ''low'', ''moderate'', ''high'', ''very_high'', ''severe'']"

definition demographicGroups :: "string list" where
  "demographicGroups = map fst riskFactors"

text \<open>
  The tables of the specification of the health risk: the risk level of an AQI value
  (the thresholds of the categories), the base score of a level and the factor of a
  group.
\<close>

definition specRiskLevel :: "int \<Rightarrow> string" where
  "specRiskLevel v =
     (if v \<le> 50 then ''minimal'' else if v \<le> 100 then ''low''
      else if v \<le> 150 then ''moderate'' else if v \<le> 200 then ''high''
      else if v \<le> 300 then ''very_high'' else ''severe'')"

definition specBaseScore :: "string \<rightharpoonup> int" where
  "specBaseScore =
     [''minimal'' \<mapsto> 10, ''low'' \<mapsto> 30, ''moderate'' \<mapsto> 50, ''high'' \<mapsto> 70,
      ''very_high'' \<mapsto> 85, ''severe'' \<mapsto> 100]"

definition specGroupFactor :: "string \<rightharpoonup> rat" where
  "specGroupFactor =
     [''general'' \<mapsto> 1.0, ''elderly'' \<mapsto> 1.5, ''children'' \<mapsto> 1.3,
      ''respiratory'' \<mapsto> 2.0, ''cardiovascular'' \<mapsto> 1.8]"

text \<open>
  The decision table of the recommendations: the general messages of a level, and the
  messages of a group at a level.
\<close>

definition generalMessages :: "string \<Rightarrow> string list" where
  "generalMessages lvl =
     (if lvl = ''minimal'' then
        [''Air quality is good. No special precautions needed.'']
      else if lvl = ''low'' then
        [''Air quality is acceptable. Unusually sensitive individuals should consider reducing prolonged outdoor exertion.'']
      else if lvl = ''moderate'' then
        [''Members of sensitive groups may experience health effects. The general public is less likely to be affected.'',
         ''Consider reducing prolonged or heavy outdoor exertion.'']
      else if lvl = ''high'' then
        [''Everyone may begin to experience health effects. Members of sensitive groups may experience more serious effects.'',
         ''Avoid prolonged or heavy outdoor exertion. Consider moving activities indoors or rescheduling.'']
      else if lvl = ''very_high'' then
        [''Health alert: The risk of health effects is increased for everyone.'',
         ''Avoid all outdoor physical activity. Stay indoors with windows closed if possible.'']
      else if lvl = ''severe'' then
        [''Health warning of emergency conditions: everyone is more likely to be affected.'',
         ''Remain indoors with windows closed. If available, use air purifiers.'',
         ''Wear N95 masks if outdoor activity is unavoidable.'']
      else [])"

definition fromHigh :: "string \<Rightarrow> bool" where
  "fromHigh lvl = (lvl \<in> set [''high'', ''very_high'', ''severe''])"

definition groupMessages :: "string \<Rightarrow> string \<Rightarrow> string list" where
  "groupMessages grp lvl =
     (if lvl = ''minimal'' then []
      else if grp = ''elderly'' then
        ''Elderly individuals should take extra precautions to limit exposure.''
        # (if fromHigh lvl
           then [''Consider checking in with healthcare provider if respiratory symptoms develop.'']
           else [])
      else if grp = ''children'' then
        ''Children should reduce outdoor play time.''
        # (if fromHigh lvl then [''Keep children indoors with windows closed.''] else [])
      else if grp = ''respiratory'' then
        ''Individuals with respiratory conditions should have medication readily available.''
        # (if lvl \<in> set [''moderate'', ''high'']
           then [''Consider using a mask (N95 or better) when outdoors.'']
           else if lvl \<in> set [''very_high'', ''severe'']
           then [''Stay indoors and use air purifiers if available.'',
                 ''Contact healthcare provider if symptoms worsen.'']
           else [])
      else if grp = ''cardiovascular'' then
        ''Individuals with cardiovascular conditions should avoid physical exertion.''
        # (if fromHigh lvl
           then [''Stay in air-conditioned environments when possible.'',
                 ''Monitor blood pressure and contact healthcare provider if unusual symptoms occur.'']
           else [])
      else [])"

section \<open>Properties of the breakpoint tables and of the interpolation\<close>

lemma ordered_Cons:
  "ordered (h # rest) \<longleftrightarrow>
     min_conc h < max_conc h \<and> (\<forall>b \<in> set rest. max_conc h < min_conc b) \<and> ordered rest"
  by (auto simp: ordered_def below_def)

lemma ordered_width: "ordered bps \<Longrightarrow> b \<in> set bps \<Longrightarrow> min_conc b < max_conc b"
  unfolding ordered_def by blast

lemma scan_undefined: "scanBreakpoints None bps = None"
  by (induction bps) (simp_all add: js_ge_def)

lemma scan_inside:
  "ordered bps \<Longrightarrow> b \<in> set bps \<Longrightarrow> inBracket c b \<Longrightarrow>
   scanBreakpoints (Some c) bps = Some (AQI (Math_round (interpolate b c)))"
proof (induction bps)
  case Nil
  then show ?case by simp
next
  case (Cons h rest)
  from Cons.prems(1) have h: "min_conc h < max_conc h"
    and hb: "\<forall>x \<in> set rest. max_conc h < min_conc x" and o: "ordered rest"
    by (simp_all add: ordered_Cons)
  show ?case
  proof (cases "b = h")
    case True
    with h Cons.prems(3) show ?thesis by (simp add: inBracket_def js_ge_def js_le_def)
  next
    case False
    with Cons.prems(2) have mem: "b \<in> set rest" by simp
    with hb have "max_conc h < min_conc b" by simp
    with Cons.prems(3) have "\<not> c \<le> max_conc h" by (simp add: inBracket_def)
    moreover have "scanBreakpoints (Some c) rest = Some (AQI (Math_round (interpolate b c)))"
      using o mem Cons.prems(3) by (rule Cons.IH)
    ultimately show ?thesis by (simp add: js_le_def)
  qed
qed

lemma scan_outside:
  "\<forall>b \<in> set bps. \<not> inBracket c b \<Longrightarrow> scanBreakpoints (Some c) bps = None"
  by (induction bps) (auto simp: inBracket_def js_ge_def js_le_def)


lemma ordered_tables:
  "ordered breakpointsPM25" "ordered breakpointsPM10" "ordered breakpointsNO2"
  "ordered breakpointsSO2" "ordered breakpointsCO" "ordered breakpointsO3"
  by (simp_all add: ordered_def below_def breakpointsPM25_def breakpointsPM10_def breakpointsNO2_def
        breakpointsSO2_def breakpointsCO_def breakpointsO3_def bp_def)

lemma ordered_breakpoints: "ordered (breakpoints p)"
  by (cases p) (simp_all add: ordered_tables)

lemma ordered_max_le_last: "ordered bps \<Longrightarrow> b \<in> set bps \<Longrightarrow> max_conc b \<le> max_conc (last bps)"
proof (induction bps)
  case Nil
  then show ?case by simp
next
  case (Cons h rest)
  from Cons.prems(1) have hb: "\<forall>x \<in> set rest. max_conc h < min_conc x" and o: "ordered rest"
    by (simp_all add: ordered_Cons)
  show ?case
  proof (cases "rest = []")
    case True
    with Cons.prems show ?thesis by simp
  next
    case False
    then have l: "last (h # rest) = last rest" and lm: "last rest \<in> set rest" by simp_all
    show ?thesis
    proof (cases "b = h")
      case True
      from hb lm have "max_conc h < min_conc (last rest)" by simp
      moreover from o lm have "min_conc (last rest) < max_conc (last rest)"
        by (rule ordered_width)
      ultimately show ?thesis using True l by simp
    next
      case False
      with Cons.prems(2) have "b \<in> set rest" by simp
      with o have "max_conc b \<le> max_conc (last rest)" by (rule Cons.IH)
      with l show ?thesis by simp
    qed
  qed
qed

lemma gap_above: "inGap c bps \<Longrightarrow> \<exists>b \<in> set bps. max_conc b < c"
  by (induction c bps rule: inGap.induct) auto

lemma gap_under: "inGap c bps \<Longrightarrow> \<exists>b \<in> set bps. c < min_conc b"
  by (induction c bps rule: inGap.induct) auto

lemma gap_outside: "ordered bps \<Longrightarrow> inGap c bps \<Longrightarrow> b \<in> set bps \<Longrightarrow> \<not> inBracket c b"
proof (induction c bps rule: inGap.induct)
  case (1 c h h' rest)
  from "1.prems"(1) have w: "min_conc h < max_conc h"
    and hb: "\<forall>x \<in> set (h' # rest). max_conc h < min_conc x" and o: "ordered (h' # rest)"
    by (simp_all add: ordered_Cons)
  from o have w': "min_conc h' < max_conc h'"
    and hb': "\<forall>x \<in> set rest. max_conc h' < min_conc x" by (simp_all add: ordered_Cons)
  show ?case
  proof (cases "max_conc h < c \<and> c < min_conc h'")
    case True
    show ?thesis
    proof (cases "b = h")
      case bh: True
      with True show ?thesis by (simp add: inBracket_def)
    next
      case False
      with "1.prems"(3) have "b = h' \<or> b \<in> set rest" by simp
      then have "min_conc h' \<le> min_conc b"
      proof
        assume "b = h'" then show ?thesis by simp
      next
        assume "b \<in> set rest"
        with hb' have "max_conc h' < min_conc b" by simp
        with w' show ?thesis by simp
      qed
      with True show ?thesis by (simp add: inBracket_def)
    qed
  next
    case False
    with "1.prems"(2) have g: "inGap c (h' # rest)" by simp
    show ?thesis
    proof (cases "b = h")
      case True
      from g obtain x where x: "x \<in> set (h' # rest)" "max_conc x < c"
        using gap_above by blast
      from o x(1) have "min_conc x < max_conc x" by (rule ordered_width)
      moreover from hb x(1) have "max_conc h < min_conc x" by blast
      ultimately have "max_conc h < c" using x(2) by linarith
      with True show ?thesis by (simp add: inBracket_def)
    next
      case False
      with "1.prems"(3) have "b \<in> set (h' # rest)" by simp
      with o g show ?thesis by (rule "1.IH")
    qed
  qed
qed simp_all

lemma gap_below_top:
  assumes "ordered bps" "inGap c bps"
  shows "c < max_conc (last bps)"
proof -
  from assms(2) obtain x where x: "x \<in> set bps" "c < min_conc x" using gap_under by blast
  from assms(1) x(1) have "min_conc x < max_conc x" by (rule ordered_width)
  moreover from assms(1) x(1) have "max_conc x \<le> max_conc (last bps)" by (rule ordered_max_le_last)
  ultimately show ?thesis using x(2) by linarith
qed


lemma inGap_index:
  "inGap c bps \<longleftrightarrow> (\<exists>i. Suc i < length bps \<and> max_conc (bps ! i) < c \<and> c < min_conc (bps ! Suc i))"
proof (induction c bps rule: inGap.induct)
  case (1 c b b' rest)
  have "(\<exists>i. Suc i < length (b # b' # rest) \<and> max_conc ((b # b' # rest) ! i) < c
            \<and> c < min_conc ((b # b' # rest) ! Suc i))
        \<longleftrightarrow> (max_conc b < c \<and> c < min_conc b')
           \<or> (\<exists>j. Suc j < length (b' # rest) \<and> max_conc ((b' # rest) ! j) < c
                 \<and> c < min_conc ((b' # rest) ! Suc j))"
    (is "?L \<longleftrightarrow> ?H \<or> ?R")
  proof
    assume ?L
    then obtain i where i: "Suc i < length (b # b' # rest)"
      "max_conc ((b # b' # rest) ! i) < c" "c < min_conc ((b # b' # rest) ! Suc i)" by blast
    show "?H \<or> ?R"
    proof (cases i)
      case 0
      with i show ?thesis by simp
    next
      case (Suc j)
      with i have "Suc j < length (b' # rest) \<and> max_conc ((b' # rest) ! j) < c
                 \<and> c < min_conc ((b' # rest) ! Suc j)" by simp
      then show ?thesis by blast
    qed
  next
    assume "?H \<or> ?R"
    then show ?L
    proof
      assume ?H
      then have "Suc 0 < length (b # b' # rest) \<and> max_conc ((b # b' # rest) ! 0) < c
            \<and> c < min_conc ((b # b' # rest) ! Suc 0)" by simp
      then show ?L by blast
    next
      assume ?R
      then obtain j where "Suc j < length (b' # rest)" "max_conc ((b' # rest) ! j) < c"
          "c < min_conc ((b' # rest) ! Suc j)" by blast
      then have "Suc (Suc j) < length (b # b' # rest) \<and> max_conc ((b # b' # rest) ! Suc j) < c
            \<and> c < min_conc ((b # b' # rest) ! Suc (Suc j))" by simp
      then show ?L by blast
    qed
  qed
  with 1 show ?case by simp
qed simp_all

lemmas table_defs = breakpointsPM25_def breakpointsPM10_def breakpointsNO2_def
  breakpointsSO2_def breakpointsCO_def breakpointsO3_def

lemmas pollutant_defs = calculatePM25AQI_def calculatePM10AQI_def calculateNO2AQI_def
  calculateSO2AQI_def calculateCOAQI_def calculateO3AQI_def

lemma computeSubIndex_table:
  "computeSubIndex p c = calculateAQIFromBreakpoints c (breakpoints p)"
  by (cases p) (simp_all add: pollutant_defs)

lemma breakpoints_length: "length (breakpoints p) = 6"
  by (cases p) (simp_all add: table_defs)

lemma breakpoints_nonempty: "breakpoints p \<noteq> []"
  using breakpoints_length[of p] by auto

lemma breakpoints_first: "min_conc (hd (breakpoints p)) = 0"
  by (cases p) (simp_all add: table_defs bp_def)

lemma breakpoints_min_nonneg: "b \<in> set (breakpoints p) \<Longrightarrow> 0 \<le> min_conc b"
  by (cases p) (auto simp: table_defs bp_def)

lemma Math_round_of_int: "Math_round (of_int n) = n"
  by (simp add: Math_round_def) linarith

lemma Math_round_round: "Math_round x = round x"
  by (simp add: Math_round_def round_def)

lemma interpolate_max: "min_conc b < max_conc b \<Longrightarrow> interpolate b (max_conc b) = of_int (maxAQI b)"
  by (simp add: interpolate_def)

lemma interpolate_min: "interpolate b (min_conc b) = of_int (minAQI b)"
  by (simp add: interpolate_def)

lemma calc_inside:
  assumes "ordered bps" "b \<in> set bps" "inBracket c b"
  shows "calculateAQIFromBreakpoints (Some c) bps = Inr (AQI (Math_round (interpolate b c)))"
  using scan_inside[OF assms] by (simp add: calculateAQIFromBreakpoints_def)

lemma calc_outside:
  assumes "bps \<noteq> []" "\<forall>b \<in> set bps. \<not> inBracket c b"
  shows "calculateAQIFromBreakpoints (Some c) bps =
     Inr (AQI (if max_conc (last bps) < c then maxAQI (last bps) else 0))"
  using scan_outside[OF assms(2)] assms(1)
  by (simp add: calculateAQIFromBreakpoints_def js_gt_def)

lemma calc_undefined:
  "bps \<noteq> [] \<Longrightarrow> calculateAQIFromBreakpoints None bps = Inr (AQI 0)"
  by (simp add: calculateAQIFromBreakpoints_def scan_undefined js_gt_def)




lemma next_minAQI:
  "Suc i < length (breakpoints p) \<Longrightarrow> minAQI (breakpoints p ! Suc i) = maxAQI (breakpoints p ! i) + 1"
proof -
  assume "Suc i < length (breakpoints p)"
  then have "i \<in> {0, 1, 2, 3, 4}" using breakpoints_length[of p] by auto
  then show ?thesis
    by (cases p) (auto simp: table_defs bp_def)
qed

text \<open>
  Claim C4. For every pollutant and every bracket of its table, \<open>computeSubIndex\<close> at the
  bracket's \<open>concentrationHigh\<close> is the bracket's \<open>aqiHigh\<close>, and at the next bracket's
  \<open>concentrationLow\<close> it is the next bracket's \<open>aqiLow\<close>, which is \<open>aqiHigh + 1\<close>: the
  derived AQI has neither a gap nor an overlap at a boundary.
\<close>

theorem boundary_continuity:
  "i < length (breakpoints p) \<longrightarrow>
     computeSubIndex p (Some (max_conc (breakpoints p ! i))) = Inr (AQI (maxAQI (breakpoints p ! i)))
     \<and> (Suc i < length (breakpoints p) \<longrightarrow>
          computeSubIndex p (Some (min_conc (breakpoints p ! Suc i)))
            = Inr (AQI (minAQI (breakpoints p ! Suc i)))
          \<and> minAQI (breakpoints p ! Suc i) = maxAQI (breakpoints p ! i) + 1)"
proof (intro impI conjI)
  assume i: "i < length (breakpoints p)"
  let ?b = "breakpoints p ! i"
  from i have m: "?b \<in> set (breakpoints p)" by simp
  have w: "min_conc ?b < max_conc ?b" using ordered_breakpoints m by (rule ordered_width)
  then have "inBracket (max_conc ?b) ?b" by (simp add: inBracket_def)
  with m have "computeSubIndex p (Some (max_conc ?b)) = Inr (AQI (Math_round (interpolate ?b (max_conc ?b))))"
    using calc_inside[OF ordered_breakpoints] by (simp add: computeSubIndex_table)
  with w show "computeSubIndex p (Some (max_conc ?b)) = Inr (AQI (maxAQI ?b))"
    by (simp add: interpolate_max Math_round_of_int)
next
  assume i: "Suc i < length (breakpoints p)"
  let ?b = "breakpoints p ! Suc i"
  from i have m: "?b \<in> set (breakpoints p)" by simp
  have w: "min_conc ?b < max_conc ?b" using ordered_breakpoints m by (rule ordered_width)
  then have "inBracket (min_conc ?b) ?b" by (simp add: inBracket_def)
  with m have "computeSubIndex p (Some (min_conc ?b)) = Inr (AQI (Math_round (interpolate ?b (min_conc ?b))))"
    using calc_inside[OF ordered_breakpoints] by (simp add: computeSubIndex_table)
  then show "computeSubIndex p (Some (min_conc ?b)) = Inr (AQI (minAQI ?b))"
    by (simp add: interpolate_min Math_round_of_int)
next
  assume "Suc i < length (breakpoints p)"
  then show "minAQI (breakpoints p ! Suc i) = maxAQI (breakpoints p ! i) + 1"
    by (rule next_minAQI)
qed

theorem boundary_continuity_witness:
  "(0::nat) < length (breakpoints PM25) \<and> Suc 0 < length (breakpoints PM25)
   \<and> computeSubIndex PM25 (Some 12) = Inr (AQI 50)
   \<and> computeSubIndex PM25 (Some 12.1) = Inr (AQI 51)"
proof -
  have l: "(0::nat) < length (breakpoints PM25)" "Suc 0 < length (breakpoints PM25)"
    by (simp_all add: breakpointsPM25_def)
  have v: "max_conc (breakpoints PM25 ! 0) = 12" "maxAQI (breakpoints PM25 ! 0) = 50"
    "min_conc (breakpoints PM25 ! Suc 0) = 12.1" "minAQI (breakpoints PM25 ! Suc 0) = 51"
    by (simp_all add: breakpointsPM25_def bp_def)
  from boundary_continuity[of 0 PM25] l have
    "computeSubIndex PM25 (Some (max_conc (breakpoints PM25 ! 0))) = Inr (AQI (maxAQI (breakpoints PM25 ! 0)))"
    "computeSubIndex PM25 (Some (min_conc (breakpoints PM25 ! Suc 0))) = Inr (AQI (minAQI (breakpoints PM25 ! Suc 0)))"
    by blast+
  then have "computeSubIndex PM25 (Some 12) = Inr (AQI 50)" "computeSubIndex PM25 (Some 12.1) = Inr (AQI 51)"
    by (simp_all only: v)
  with l show ?thesis by blast
qed




text \<open>
  Claim C10. For every pollutant, a concentration strictly between the high bound of a
  bracket and the low bound of the next one gives the sub-index 0, the default of a
  value below the table, and not an interpolated value; so PM2.5 strictly between 12
  and 12.1 and NO2 strictly between 53 and 54 give 0.
\<close>

theorem gap_gives_zero:
  "(\<forall>i. Suc i < length (breakpoints p) \<and> max_conc (breakpoints p ! i) < c
        \<and> c < min_conc (breakpoints p ! Suc i) \<longrightarrow> computeSubIndex p (Some c) = Inr (AQI 0))
   \<and> (12 < c \<and> c < 12.1 \<longrightarrow> computeSubIndex PM25 (Some c) = Inr (AQI 0))
   \<and> (53 < c \<and> c < 54 \<longrightarrow> computeSubIndex NO2 (Some c) = Inr (AQI 0))"
proof -
  have gap: "computeSubIndex q (Some c) = Inr (AQI 0)" if g: "inGap c (breakpoints q)" for q
  proof -
    have "\<forall>b \<in> set (breakpoints q). \<not> inBracket c b"
      using gap_outside[OF ordered_breakpoints g] by blast
    moreover have "\<not> max_conc (last (breakpoints q)) < c"
      using gap_below_top[OF ordered_breakpoints g] by simp
    ultimately show ?thesis
      using calc_outside[OF breakpoints_nonempty, of q c] by (simp add: computeSubIndex_table)
  qed
  have one: "\<forall>i. Suc i < length (breakpoints p) \<and> max_conc (breakpoints p ! i) < c
        \<and> c < min_conc (breakpoints p ! Suc i) \<longrightarrow> computeSubIndex p (Some c) = Inr (AQI 0)"
    using gap[of p] inGap_index[of c "breakpoints p"] by blast
  have two: "12 < c \<and> c < 12.1 \<longrightarrow> computeSubIndex PM25 (Some c) = Inr (AQI 0)"
  proof
    assume "12 < c \<and> c < 12.1"
    then have "inGap c (breakpoints PM25)" by (simp add: breakpointsPM25_def bp_def)
    then show "computeSubIndex PM25 (Some c) = Inr (AQI 0)" by (rule gap)
  qed
  have three: "53 < c \<and> c < 54 \<longrightarrow> computeSubIndex NO2 (Some c) = Inr (AQI 0)"
  proof
    assume "53 < c \<and> c < 54"
    then have "inGap c (breakpoints NO2)" by (simp add: breakpointsNO2_def bp_def)
    then show "computeSubIndex NO2 (Some c) = Inr (AQI 0)" by (rule gap)
  qed
  from one two three show ?thesis by blast
qed

theorem gap_gives_zero_witness:
  "(12::rat) < 12.05 \<and> (12.05::rat) < 12.1 \<and> computeSubIndex PM25 (Some 12.05) = Inr (AQI 0)
   \<and> Suc 0 < length (breakpoints NO2) \<and> max_conc (breakpoints NO2 ! 0) < 53.5
   \<and> 53.5 < min_conc (breakpoints NO2 ! Suc 0) \<and> computeSubIndex NO2 (Some 53.5) = Inr (AQI 0)"
proof -
  have h: "(12::rat) < 12.05 \<and> (12.05::rat) < 12.1" by simp
  with gap_gives_zero[of PM25 "12.05"] have one: "computeSubIndex PM25 (Some 12.05) = Inr (AQI 0)"
    by blast
  have k: "Suc 0 < length (breakpoints NO2) \<and> max_conc (breakpoints NO2 ! 0) < 53.5
     \<and> 53.5 < min_conc (breakpoints NO2 ! Suc 0)" by (simp add: breakpointsNO2_def bp_def)
  with gap_gives_zero[of NO2 "53.5"] have two: "computeSubIndex NO2 (Some 53.5) = Inr (AQI 0)"
    by blast
  from h one k two show ?thesis by blast
qed

section \<open>Aggregation\<close>

lemma breakpoints_aqi_bounds:
  "b \<in> set (breakpoints p) \<Longrightarrow> 0 \<le> minAQI b \<and> minAQI b \<le> maxAQI b"
  by (cases p) (auto simp: table_defs bp_def)

lemma breakpoints_top_nonneg: "0 \<le> maxAQI (last (breakpoints p))"
  by (cases p) (simp_all add: table_defs bp_def)

lemma interpolate_nonneg:
  assumes "min_conc b < max_conc b" "inBracket c b" "0 \<le> minAQI b" "minAQI b \<le> maxAQI b"
  shows "0 \<le> interpolate b c"
proof -
  have "0 \<le> (of_int (maxAQI b) - of_int (minAQI b) :: rat)" using assms(4) by simp
  moreover have "0 < max_conc b - min_conc b" using assms(1) by simp
  ultimately have "0 \<le> (of_int (maxAQI b) - of_int (minAQI b)) / (max_conc b - min_conc b)"
    by simp
  moreover have "0 \<le> c - min_conc b" using assms(2) by (simp add: inBracket_def)
  ultimately have "0 \<le> ((of_int (maxAQI b) - of_int (minAQI b)) / (max_conc b - min_conc b))
      * (c - min_conc b)" by (rule mult_nonneg_nonneg)
  moreover have "0 \<le> (of_int (minAQI b) :: rat)" using assms(3) by simp
  ultimately show ?thesis unfolding interpolate_def by (rule add_nonneg_nonneg)
qed

lemma Math_round_nonneg: "0 \<le> x \<Longrightarrow> 0 \<le> Math_round x"
  by (simp add: Math_round_def)

lemma computeSubIndex_undefined: "computeSubIndex p None = Inr (AQI 0)"
  by (simp add: computeSubIndex_table calc_undefined breakpoints_nonempty)

lemma computeSubIndex_total: "\<exists>v. computeSubIndex p c = Inr (AQI v) \<and> 0 \<le> v"
proof (cases c)
  case None
  then show ?thesis by (simp add: computeSubIndex_undefined)
next
  case (Some x)
  show ?thesis
  proof (cases "\<exists>b \<in> set (breakpoints p). inBracket x b")
    case True
    then obtain b where b: "b \<in> set (breakpoints p)" "inBracket x b" by blast
    have w: "min_conc b < max_conc b" using ordered_breakpoints b(1) by (rule ordered_width)
    have "0 \<le> interpolate b x"
      using w b(2) breakpoints_aqi_bounds[OF b(1)] by (simp add: interpolate_nonneg)
    then have "0 \<le> Math_round (interpolate b x)" by (rule Math_round_nonneg)
    moreover have "computeSubIndex p (Some x) = Inr (AQI (Math_round (interpolate b x)))"
      using calc_inside[OF ordered_breakpoints b] by (simp add: computeSubIndex_table)
    ultimately show ?thesis using Some by simp
  next
    case False
    then have "computeSubIndex p (Some x) =
        Inr (AQI (if max_conc (last (breakpoints p)) < x then maxAQI (last (breakpoints p)) else 0))"
      using calc_outside[OF breakpoints_nonempty, of p x] by (simp add: computeSubIndex_table)
    then show ?thesis using Some breakpoints_top_nonneg[of p] by simp
  qed
qed

lemma pollutant_UNIV: "(UNIV :: pollutant set) = {PM25, PM10, NO2, SO2, CO, O3}"
proof
  show "UNIV \<subseteq> {PM25, PM10, NO2, SO2, CO, O3}"
  proof
    fix x :: pollutant
    show "x \<in> {PM25, PM10, NO2, SO2, CO, O3}" by (cases x) simp_all
  qed
qed simp

lemma finite_pollutants: "finite (P :: pollutant set)"
proof -
  have "finite (UNIV :: pollutant set)" by (simp add: pollutant_UNIV)
  then show ?thesis by (rule finite_subset[OF subset_UNIV])
qed

lemma calculateAQI_max6:
  assumes "\<forall>p. computeSubIndex p (r p) = Inr (AQI (s p))"
  shows "calculateAQI (r PM25) (r PM10) (r NO2) (r SO2) (r CO) (r O3)
     = Inr (AQI (Max {s PM25, s PM10, s NO2, s SO2, s CO, s O3}))"
proof -
  have "calculatePM25AQI (r PM25) = Inr (AQI (s PM25))" using assms[rule_format, of PM25] by simp
  moreover have "calculatePM10AQI (r PM10) = Inr (AQI (s PM10))" using assms[rule_format, of PM10] by simp
  moreover have "calculateNO2AQI (r NO2) = Inr (AQI (s NO2))" using assms[rule_format, of NO2] by simp
  moreover have "calculateSO2AQI (r SO2) = Inr (AQI (s SO2))" using assms[rule_format, of SO2] by simp
  moreover have "calculateCOAQI (r CO) = Inr (AQI (s CO))" using assms[rule_format, of CO] by simp
  moreover have "calculateO3AQI (r O3) = Inr (AQI (s O3))" using assms[rule_format, of O3] by simp
  ultimately show ?thesis
    by (simp add: calculateAQI_def bind_js_def Math_max6_def)
qed

lemma Max_present:
  fixes s :: "pollutant \<Rightarrow> int"
  assumes nonneg: "\<forall>p. 0 \<le> s p" and absent: "\<forall>p. p \<notin> P \<longrightarrow> s p = 0" and ne: "P \<noteq> {}"
  shows "Max (s ` UNIV) = Max (s ` P)"
proof (rule Max_eqI)
  show "finite (s ` UNIV)" by (rule finite_imageI) (rule finite_pollutants)
next
  have fin: "finite (s ` P)" by (rule finite_imageI) (rule finite_pollutants)
  from ne obtain q where q: "q \<in> P" by blast
  fix y assume "y \<in> s ` UNIV"
  then obtain p where p: "y = s p" by blast
  show "y \<le> Max (s ` P)"
  proof (cases "p \<in> P")
    case True
    with fin p show ?thesis by simp
  next
    case False
    with absent p have "y = 0" by simp
    also have "0 \<le> s q" using nonneg by simp
    also have "s q \<le> Max (s ` P)" using fin q by simp
    finally show ?thesis .
  qed
next
  have fin: "finite (s ` P)" by (rule finite_imageI) (rule finite_pollutants)
  from ne have "s ` P \<noteq> {}" by simp
  with fin have "Max (s ` P) \<in> s ` P" by (rule Max_in)
  then show "Max (s ` P) \<in> s ` UNIV" by blast
qed

text \<open>
  Claim C2. The value of \<open>calculateAQI\<close> is the maximum of the six sub-indices; a
  reading that is not supplied has the sub-index 0, so for every reading set that is
  not empty the value is the maximum of the sub-indices of the pollutants it holds. In
  particular a reading set of a PM2.5 reading with sub-index 40 and an NO2 reading with
  sub-index 90 has the value 90, whose category is moderate.
\<close>

theorem calculateAQI_is_max:
  "((\<forall>p. computeSubIndex p (r p) = Inr (AQI (s p))) \<longrightarrow>
      calculateAQI (r PM25) (r PM10) (r NO2) (r SO2) (r CO) (r O3)
        = Inr (AQI (Max {s PM25, s PM10, s NO2, s SO2, s CO, s O3})))
   \<and> ((\<exists>p. r p \<noteq> None) \<longrightarrow>
      calculateAQI (r PM25) (r PM10) (r NO2) (r SO2) (r CO) (r O3)
        = Inr (AQI (Max {v. \<exists>p. r p \<noteq> None \<and> computeSubIndex p (r p) = Inr (AQI v)})))
   \<and> (calculatePM25AQI pm25 = Inr (AQI 40) \<and> calculateNO2AQI no2 = Inr (AQI 90) \<longrightarrow>
      calculateAQI pm25 None no2 None None None = Inr (AQI 90)
      \<and> getAQICategory 90 = ''moderate'')"
proof (intro conjI impI)
  assume "\<forall>p. computeSubIndex p (r p) = Inr (AQI (s p))"
  then show "calculateAQI (r PM25) (r PM10) (r NO2) (r SO2) (r CO) (r O3)
        = Inr (AQI (Max {s PM25, s PM10, s NO2, s SO2, s CO, s O3}))"
    by (rule calculateAQI_max6)
next
  assume ne: "\<exists>p. r p \<noteq> None"
  have "\<forall>p. \<exists>v. computeSubIndex p (r p) = Inr (AQI v) \<and> 0 \<le> v"
    using computeSubIndex_total by blast
  then obtain t where t: "\<forall>p. computeSubIndex p (r p) = Inr (AQI (t p)) \<and> 0 \<le> t p"
    by metis
  let ?P = "{p. r p \<noteq> None}"
  have set_eq: "{v. \<exists>p. r p \<noteq> None \<and> computeSubIndex p (r p) = Inr (AQI v)} = t ` ?P"
    using t by auto
  have "\<forall>p. p \<notin> ?P \<longrightarrow> t p = 0"
  proof (intro allI impI)
    fix p assume "p \<notin> ?P"
    then have "r p = None" by simp
    then have "computeSubIndex p (r p) = Inr (AQI 0)" by (simp add: computeSubIndex_undefined)
    with t show "t p = 0" by simp
  qed
  moreover from ne have "?P \<noteq> {}" by blast
  ultimately have "Max (t ` UNIV) = Max (t ` ?P)" using t by (intro Max_present) auto
  moreover have "t ` UNIV = {t PM25, t PM10, t NO2, t SO2, t CO, t O3}"
    by (simp add: pollutant_UNIV)
  moreover have "calculateAQI (r PM25) (r PM10) (r NO2) (r SO2) (r CO) (r O3)
        = Inr (AQI (Max {t PM25, t PM10, t NO2, t SO2, t CO, t O3}))"
    using t by (intro calculateAQI_max6) simp
  ultimately show "calculateAQI (r PM25) (r PM10) (r NO2) (r SO2) (r CO) (r O3)
        = Inr (AQI (Max {v. \<exists>p. r p \<noteq> None \<and> computeSubIndex p (r p) = Inr (AQI v)}))"
    using set_eq by simp
next
  assume a: "calculatePM25AQI pm25 = Inr (AQI 40) \<and> calculateNO2AQI no2 = Inr (AQI 90)"
  have "calculatePM10AQI None = Inr (AQI 0)" "calculateSO2AQI None = Inr (AQI 0)"
    "calculateCOAQI None = Inr (AQI 0)" "calculateO3AQI None = Inr (AQI 0)"
    using computeSubIndex_undefined[of PM10] computeSubIndex_undefined[of SO2]
      computeSubIndex_undefined[of CO] computeSubIndex_undefined[of O3] by simp_all
  with a show "calculateAQI pm25 None no2 None None None = Inr (AQI 90)"
    by (simp add: calculateAQI_def bind_js_def Math_max6_def)
next
  show "getAQICategory 90 = ''moderate''" by (simp add: getAQICategory_def)
qed


theorem calculateAQI_is_max_witness:
  "calculateAQI (Some 9.6) None (Some 91) None None None = Inr (AQI (Max {40, 0, 90, 0, 0, 0}))
   \<and> (\<exists>p. (if p = PM25 then Some (9.6::rat) else if p = NO2 then Some 91 else None) \<noteq> None)
   \<and> Max {v. \<exists>p. (if p = PM25 then Some (9.6::rat) else if p = NO2 then Some 91 else None) \<noteq> None
              \<and> computeSubIndex p (if p = PM25 then Some 9.6 else if p = NO2 then Some 91 else None)
                   = Inr (AQI v)} = 90
   \<and> calculatePM25AQI (Some 9.6) = Inr (AQI 40) \<and> calculateNO2AQI (Some 91) = Inr (AQI 90)
   \<and> calculateAQI (Some 9.6) None (Some 91) None None None = Inr (AQI 90)
   \<and> getAQICategory 90 = ''moderate''"
  (is "?one \<and> ?ne \<and> ?two \<and> ?a \<and> ?b \<and> ?three \<and> ?four")
proof -
  let ?r = "\<lambda>p. if p = PM25 then Some (9.6::rat) else if p = NO2 then Some 91 else None"
  let ?s = "\<lambda>p. if p = PM25 then (40::int) else if p = NO2 then 90 else 0"
  note inst = calculateAQI_is_max[of ?r ?s "Some 9.6" "Some 91"]
  have a: ?a by code_simp
  have b: ?b by code_simp
  have sub: "\<forall>p. computeSubIndex p (?r p) = Inr (AQI (?s p))"
  proof
    fix p show "computeSubIndex p (?r p) = Inr (AQI (?s p))"
      using a b computeSubIndex_undefined[of p] by (cases p) simp_all
  qed
  with inst have "calculateAQI (?r PM25) (?r PM10) (?r NO2) (?r SO2) (?r CO) (?r O3)
     = Inr (AQI (Max {?s PM25, ?s PM10, ?s NO2, ?s SO2, ?s CO, ?s O3}))" by blast
  then have one: ?one by simp
  have ne: ?ne by (rule exI[of _ PM25]) simp
  with inst have "calculateAQI (?r PM25) (?r PM10) (?r NO2) (?r SO2) (?r CO) (?r O3)
     = Inr (AQI (Max {v. \<exists>p. ?r p \<noteq> None \<and> computeSubIndex p (?r p) = Inr (AQI v)}))" by blast
  then have two': "calculateAQI (Some 9.6) None (Some 91) None None None
     = Inr (AQI (Max {v. \<exists>p. ?r p \<noteq> None \<and> computeSubIndex p (?r p) = Inr (AQI v)}))"
    by (simp only: pollutant.distinct if_True if_False refl)
  from inst a b have three: "?three \<and> ?four" by blast
  from two' three have two: ?two by (simp only: sum.inject aqi_value.inject)
  from one ne two a b three show ?thesis by blast
qed

section \<open>Inputs outside the domain\<close>

lemma calculateAQI_total: "\<exists>v. calculateAQI a1 a2 a3 a4 a5 a6 = Inr (AQI v) \<and> 0 \<le> v"
proof -
  obtain v1 where v1: "calculatePM25AQI a1 = Inr (AQI v1)" "0 \<le> v1"
    using computeSubIndex_total[of PM25 a1] by auto
  obtain v2 where v2: "calculatePM10AQI a2 = Inr (AQI v2)" "0 \<le> v2"
    using computeSubIndex_total[of PM10 a2] by auto
  obtain v3 where v3: "calculateNO2AQI a3 = Inr (AQI v3)" "0 \<le> v3"
    using computeSubIndex_total[of NO2 a3] by auto
  obtain v4 where v4: "calculateSO2AQI a4 = Inr (AQI v4)" "0 \<le> v4"
    using computeSubIndex_total[of SO2 a4] by auto
  obtain v5 where v5: "calculateCOAQI a5 = Inr (AQI v5)" "0 \<le> v5"
    using computeSubIndex_total[of CO a5] by auto
  obtain v6 where v6: "calculateO3AQI a6 = Inr (AQI v6)" "0 \<le> v6"
    using computeSubIndex_total[of O3 a6] by auto
  have "calculateAQI a1 a2 a3 a4 a5 a6 = Inr (AQI (max v1 (max v2 (max v3 (max v4 (max v5 v6))))))"
    using v1(1) v2(1) v3(1) v4(1) v5(1) v6(1)
    by (simp add: calculateAQI_def bind_js_def Math_max6_def)
  moreover have "0 \<le> max v1 (max v2 (max v3 (max v4 (max v5 v6))))" using v1(2) by simp
  ultimately show ?thesis by blast
qed

lemma recommendations_table:
  "generateHealthRecommendations lvl grp = generalMessages lvl @ groupMessages grp lvl"
  by (simp add: generateHealthRecommendations_def generalMessages_def groupMessages_def
      fromHigh_def Let_def)

lemma groupMessages_unknown: "grp \<notin> set demographicGroups \<Longrightarrow> groupMessages grp lvl = []"
  by (simp add: groupMessages_def demographicGroups_def riskFactors_def)

text \<open>
  Claim C8, as stated, fails: no operation reports an error. The negative PM2.5
  concentration -5 gives the sub-index 0, the empty reading set gives the AQI 0, and an
  unknown group gets the general messages of the level.
\<close>

theorem invalid_input_returns_default:
  "computeSubIndex PM25 (Some (-5)) = Inr (AQI 0)
   \<and> calculateAQI None None None None None None = Inr (AQI 0)
   \<and> generateHealthRecommendations ''moderate'' ''unknown'' = generalMessages ''moderate''"
  by (simp add: calculateAQI_def bind_js_def Math_max6_def pollutant_defs
      calculateAQIFromBreakpoints_def table_defs bp_def js_ge_def js_le_def js_gt_def
      generateHealthRecommendations_def generalMessages_def)

text \<open>
  Claim C8, amended. No input makes \<open>computeSubIndex\<close> or \<open>calculateAQI\<close> fail: each
  returns a non-negative integer for every input. A negative concentration and a
  reading that is not supplied give the sub-index 0, the default of a value below the
  table; the empty reading set gives the AQI 0; a group that is not one of the five
  gets the general messages of the level and nothing else.
\<close>

theorem invalid_input_defaults:
  "(c < 0 \<longrightarrow> computeSubIndex p (Some c) = Inr (AQI 0))
   \<and> computeSubIndex p None = Inr (AQI 0)
   \<and> calculateAQI None None None None None None = Inr (AQI 0)
   \<and> (\<exists>v. computeSubIndex p x = Inr (AQI v) \<and> 0 \<le> v)
   \<and> (\<exists>v. calculateAQI a1 a2 a3 a4 a5 a6 = Inr (AQI v) \<and> 0 \<le> v)
   \<and> (grp \<notin> set demographicGroups \<longrightarrow>
        generateHealthRecommendations lvl grp = generalMessages lvl)"
proof (intro conjI impI)
  assume "c < 0"
  then have "c < min_conc (hd (breakpoints p))" by (simp add: breakpoints_first)
  then have out: "\<forall>b \<in> set (breakpoints p). \<not> inBracket c b"
    using breakpoints_min_nonneg[of _ p] \<open>c < 0\<close> by (fastforce simp: inBracket_def)
  have "last (breakpoints p) \<in> set (breakpoints p)" using breakpoints_nonempty by simp
  then have "0 \<le> min_conc (last (breakpoints p))"
    "min_conc (last (breakpoints p)) < max_conc (last (breakpoints p))"
    using breakpoints_min_nonneg ordered_width[OF ordered_breakpoints] by blast+
  with \<open>c < 0\<close> have "\<not> max_conc (last (breakpoints p)) < c" by linarith
  with out show "computeSubIndex p (Some c) = Inr (AQI 0)"
    using calc_outside[OF breakpoints_nonempty, of p c] by (simp add: computeSubIndex_table)
next
  show "computeSubIndex p None = Inr (AQI 0)" by (rule computeSubIndex_undefined)
next
  show "calculateAQI None None None None None None = Inr (AQI 0)"
    using computeSubIndex_undefined[of PM25] computeSubIndex_undefined[of PM10]
      computeSubIndex_undefined[of NO2] computeSubIndex_undefined[of SO2]
      computeSubIndex_undefined[of CO] computeSubIndex_undefined[of O3]
    by (simp add: calculateAQI_def bind_js_def Math_max6_def)
next
  show "\<exists>v. computeSubIndex p x = Inr (AQI v) \<and> 0 \<le> v" by (rule computeSubIndex_total)
next
  show "\<exists>v. calculateAQI a1 a2 a3 a4 a5 a6 = Inr (AQI v) \<and> 0 \<le> v" by (rule calculateAQI_total)
next
  assume "grp \<notin> set demographicGroups"
  then show "generateHealthRecommendations lvl grp = generalMessages lvl"
    by (simp add: recommendations_table groupMessages_unknown)
qed

theorem invalid_input_defaults_witness:
  "(-5::rat) < 0 \<and> computeSubIndex PM25 (Some (-5)) = Inr (AQI 0)
   \<and> ''unknown'' \<notin> set demographicGroups
   \<and> generateHealthRecommendations ''moderate'' ''unknown'' = generalMessages ''moderate''"
proof -
  note inst = invalid_input_defaults[of "-5" PM25 None None None None None None None "''unknown''" "''moderate''"]
  have n: "(-5::rat) < 0" by simp
  with inst have one: "computeSubIndex PM25 (Some (-5)) = Inr (AQI 0)" by blast
  have u: "''unknown'' \<notin> set demographicGroups" by (simp add: demographicGroups_def riskFactors_def)
  with inst have two: "generateHealthRecommendations ''moderate'' ''unknown'' = generalMessages ''moderate''"
    by blast
  from n one u two show ?thesis by blast
qed

section \<open>Categories\<close>

text \<open>
  Claim C3. For every integer AQI value \<open>v\<close> (in particular every \<open>v \<ge> 0\<close>) the category
  is good exactly when \<open>v \<le> 50\<close>, moderate exactly when \<open>50 < v \<le> 100\<close>, unhealthy for
  sensitive groups exactly when \<open>100 < v \<le> 150\<close>, unhealthy exactly when
  \<open>150 < v \<le> 200\<close>, very unhealthy exactly when \<open>200 < v \<le> 300\<close> and hazardous exactly
  when \<open>v > 300\<close>; at the boundaries 50 is good, 51 and 100 are moderate, 101 is
  unhealthy for sensitive groups, and so on.
\<close>

theorem getAQICategory_thresholds:
  "(getAQICategory v = ''good'' \<longleftrightarrow> v \<le> 50)
   \<and> (getAQICategory v = ''moderate'' \<longleftrightarrow> 50 < v \<and> v \<le> 100)
   \<and> (getAQICategory v = ''unhealthy_for_sensitive'' \<longleftrightarrow> 100 < v \<and> v \<le> 150)
   \<and> (getAQICategory v = ''unhealthy'' \<longleftrightarrow> 150 < v \<and> v \<le> 200)
   \<and> (getAQICategory v = ''very_unhealthy'' \<longleftrightarrow> 200 < v \<and> v \<le> 300)
   \<and> (getAQICategory v = ''hazardous'' \<longleftrightarrow> 300 < v)
   \<and> getAQICategory 0 = ''good'' \<and> getAQICategory 50 = ''good''
   \<and> getAQICategory 51 = ''moderate'' \<and> getAQICategory 100 = ''moderate''
   \<and> getAQICategory 101 = ''unhealthy_for_sensitive''
   \<and> getAQICategory 150 = ''unhealthy_for_sensitive''
   \<and> getAQICategory 151 = ''unhealthy'' \<and> getAQICategory 200 = ''unhealthy''
   \<and> getAQICategory 201 = ''very_unhealthy'' \<and> getAQICategory 300 = ''very_unhealthy''
   \<and> getAQICategory 301 = ''hazardous'' \<and> getAQICategory 500 = ''hazardous''"
  by (simp add: getAQICategory_def)

theorem getAQICategory_thresholds_witness:
  "getAQICategory 75 = ''moderate'' \<and> getAQICategory 350 = ''hazardous''"
proof -
  have "(50::int) < 75 \<and> (75::int) \<le> 100" by simp
  with getAQICategory_thresholds[of 75] have one: "getAQICategory 75 = ''moderate''" by blast
  have "(300::int) < 350" by simp
  with getAQICategory_thresholds[of 350] have two: "getAQICategory 350 = ''hazardous''" by blast
  from one two show ?thesis by blast
qed

section \<open>Health risks and recommendations\<close>

lemma groupRisk_level: "level (groupRisk v g f) = specRiskLevel v"
  by (simp add: groupRisk_def specRiskLevel_def Let_def)

lemma specBaseScore_level:
  "\<exists>base. specBaseScore (specRiskLevel v) = Some base \<and> 0 \<le> base
     \<and> score (groupRisk v g f) = min 100 (Math_round (of_int base * f))"
  by (simp add: groupRisk_def specRiskLevel_def specBaseScore_def Let_def)

lemma riskFactors_positive: "(g, f) \<in> set riskFactors \<Longrightarrow> 0 < f"
  by (auto simp: riskFactors_def)

lemma map_of_map_keyed:
  "map_of (map (\<lambda>(k, v). (k, h k v)) xs) k = map_option (h k) (map_of xs k)"
  by (induction xs) auto

lemma riskFactors_distinct: "distinct (map fst riskFactors)"
  by (simp add: riskFactors_def)

lemma sensorRisks_lookup:
  assumes "(g, f) \<in> set riskFactors"
  shows "map_of (sensorRisks v) g = Some (groupRisk v g f)"
proof -
  from assms have "map_of riskFactors g = Some f"
    using riskFactors_distinct by simp
  then show ?thesis
    by (simp add: sensorRisks_def map_of_map_keyed)
qed

lemma sensorRisks_keys: "map fst (sensorRisks v) = map fst riskFactors"
  by (simp add: sensorRisks_def case_prod_unfold comp_def)

lemma riskFactors_spec: "(g, f) \<in> set riskFactors \<longleftrightarrow> specGroupFactor g = Some f"
  by (auto simp: riskFactors_def specGroupFactor_def split: if_splits)

lemma riskFactors_dom: "set (map fst riskFactors) = dom specGroupFactor"
proof -
  have "dom specGroupFactor = {g. \<exists>f. (g, f) \<in> set riskFactors}"
    by (simp add: dom_def riskFactors_spec)
  also have "\<dots> = fst ` set riskFactors" by force
  finally show ?thesis by simp
qed

text \<open>
  Claim C6. For every AQI value and every group with its factor (general 1.0, elderly
  1.5, children 1.3, respiratory 2.0, cardiovascular 1.8), the entry of the group in the
  risks of a sensor has as score the base score of the risk level of the AQI (minimal
  10, low 30, moderate 50, high 70, very high 85, severe 100) times the factor, rounded
  and clamped to the range from 0 to 100; the level of the entry is the risk level of
  the AQI whatever the group and the factor are. The risks hold exactly the five groups.
\<close>

theorem health_risk_score:
  "(specGroupFactor grp = Some factor \<longrightarrow>
      map_of (sensorRisks v) grp = Some (groupRisk v grp factor)
      \<and> (\<exists>base. specBaseScore (specRiskLevel v) = Some base
            \<and> score (groupRisk v grp factor)
                = max 0 (min 100 (round (of_int base * factor)))))
   \<and> level (groupRisk v g f) = specRiskLevel v
   \<and> set (map fst (sensorRisks v)) = dom specGroupFactor"
proof (intro conjI impI)
  assume sf: "specGroupFactor grp = Some factor"
  then have m: "(grp, factor) \<in> set riskFactors" by (simp add: riskFactors_spec)
  then show "map_of (sensorRisks v) grp = Some (groupRisk v grp factor)"
    by (rule sensorRisks_lookup)
  from m have pos: "0 < factor" by (rule riskFactors_positive)
  obtain base where base: "specBaseScore (specRiskLevel v) = Some base" "0 \<le> base"
    "score (groupRisk v grp factor) = min 100 (Math_round (of_int base * factor))"
    using specBaseScore_level by blast
  from base(2) pos have "0 \<le> of_int base * factor" by simp
  then have "0 \<le> Math_round (of_int base * factor)" by (rule Math_round_nonneg)
  with base(3) have "score (groupRisk v grp factor)
      = max 0 (min 100 (round (of_int base * factor)))"
    by (simp add: Math_round_round)
  with base(1) show "\<exists>base. specBaseScore (specRiskLevel v) = Some base
            \<and> score (groupRisk v grp factor)
                = max 0 (min 100 (round (of_int base * factor)))" by blast
next
  show "level (groupRisk v g f) = specRiskLevel v" by (rule groupRisk_level)
next
  show "set (map fst (sensorRisks v)) = dom specGroupFactor"
    by (simp only: sensorRisks_keys riskFactors_dom)
qed

theorem health_risk_score_witness:
  "specGroupFactor ''respiratory'' = Some 2
   \<and> map_of (sensorRisks 101) ''respiratory'' = Some (groupRisk 101 ''respiratory'' 2)
   \<and> specBaseScore (specRiskLevel 101) = Some 50
   \<and> score (groupRisk 101 ''respiratory'' 2) = 100
   \<and> level (groupRisk 101 ''respiratory'' 2) = ''moderate''"
proof -
  note inst = health_risk_score[of "''respiratory''" 2 101 "''respiratory''" 2]
  have f: "specGroupFactor ''respiratory'' = Some 2" by (simp add: specGroupFactor_def)
  with inst have one: "map_of (sensorRisks 101) ''respiratory'' = Some (groupRisk 101 ''respiratory'' 2)"
    by blast
  have b: "specBaseScore (specRiskLevel 101) = Some 50"
    by (simp add: specBaseScore_def specRiskLevel_def)
  from inst f obtain base where "specBaseScore (specRiskLevel 101) = Some base"
    "score (groupRisk 101 ''respiratory'' 2) = max 0 (min 100 (round (of_int base * (2::rat))))"
    by blast
  with b have two: "score (groupRisk 101 ''respiratory'' 2) = 100" by simp
  from inst have "level (groupRisk 101 ''respiratory'' 2) = specRiskLevel 101" by blast
  then have three: "level (groupRisk 101 ''respiratory'' 2) = ''moderate''"
    by (simp add: specRiskLevel_def)
  from f one b two three show ?thesis by blast
qed

text \<open>
  Claim C9, as stated, fails: at the level high the respiratory group gets the mask
  message but no message about a healthcare provider, and at the level very high it
  gets the healthcare message but no message about a mask.
\<close>

theorem respiratory_high_no_contact:
  "generateHealthRecommendations ''high'' ''respiratory'' =
     [''Everyone may begin to experience health effects. Members of sensitive groups may experience more serious effects.'',
      ''Avoid prolonged or heavy outdoor exertion. Consider moving activities indoors or rescheduling.'',
      ''Individuals with respiratory conditions should have medication readily available.'',
      ''Consider using a mask (N95 or better) when outdoors.'']
   \<and> \<not> list_ex (mentions ''healthcare provider'') (generateHealthRecommendations ''high'' ''respiratory'')
   \<and> generateHealthRecommendations ''very_high'' ''respiratory'' =
     [''Health alert: The risk of health effects is increased for everyone.'',
      ''Avoid all outdoor physical activity. Stay indoors with windows closed if possible.'',
      ''Individuals with respiratory conditions should have medication readily available.'',
      ''Stay indoors and use air purifiers if available.'',
      ''Contact healthcare provider if symptoms worsen.'']
   \<and> \<not> list_ex (mentions ''mask'') (generateHealthRecommendations ''very_high'' ''respiratory'')"
  by code_simp

lemma respiratory_mask:
  "lvl \<in> set riskLevels \<Longrightarrow>
   (''Consider using a mask (N95 or better) when outdoors.''
      \<in> set (generateHealthRecommendations lvl ''respiratory'')) = (lvl = ''moderate'' \<or> lvl = ''high'')"
  by (auto simp: riskLevels_def generateHealthRecommendations_def)

lemma respiratory_contact:
  "lvl \<in> set riskLevels \<Longrightarrow>
   (''Contact healthcare provider if symptoms worsen.''
      \<in> set (generateHealthRecommendations lvl ''respiratory'')) = (lvl = ''very_high'' \<or> lvl = ''severe'')"
  by (auto simp: riskLevels_def generateHealthRecommendations_def)

lemma respiratory_moderate:
  "100 < v \<Longrightarrow> v \<le> 150 \<Longrightarrow>
   recommendations (groupRisk v ''respiratory'' f) =
     [''Members of sensitive groups may experience health effects. The general public is less likely to be affected.'',
      ''Consider reducing prolonged or heavy outdoor exertion.'',
      ''Individuals with respiratory conditions should have medication readily available.'',
      ''Consider using a mask (N95 or better) when outdoors.'']"
  by (simp add: groupRisk_def generateHealthRecommendations_def Let_def)

text \<open>
  Claim C9, amended. For every risk level and group the recommendations are the general
  messages of the level followed by the messages of the group at that level, as the
  decision table \<open>groupMessages\<close> gives them: nothing at the level minimal and nothing
  for the general group, else the message of the group, followed for the elderly,
  children and cardiovascular groups by their further messages at the levels high, very
  high and severe. The respiratory group gets the mask message exactly at the levels
  moderate and high, and the messages to stay indoors and to contact a healthcare
  provider exactly at the levels very high and severe. A respiratory profile at the
  moderate level (an AQI from 101 to 150) holds the general message on sensitive
  groups and the respiratory mask message.
\<close>

theorem recommendations_decision_table:
  "generateHealthRecommendations lvl grp = generalMessages lvl @ groupMessages grp lvl
   \<and> (lvl \<in> set riskLevels \<longrightarrow>
        ((''Consider using a mask (N95 or better) when outdoors.''
            \<in> set (generateHealthRecommendations lvl ''respiratory''))
          = (lvl = ''moderate'' \<or> lvl = ''high''))
        \<and> ((''Contact healthcare provider if symptoms worsen.''
            \<in> set (generateHealthRecommendations lvl ''respiratory''))
          = (lvl = ''very_high'' \<or> lvl = ''severe'')))
   \<and> (100 < v \<and> v \<le> 150 \<longrightarrow>
        level (groupRisk v ''respiratory'' f) = ''moderate''
        \<and> recommendations (groupRisk v ''respiratory'' f) =
          [''Members of sensitive groups may experience health effects. The general public is less likely to be affected.'',
           ''Consider reducing prolonged or heavy outdoor exertion.'',
           ''Individuals with respiratory conditions should have medication readily available.'',
           ''Consider using a mask (N95 or better) when outdoors.''])"
proof (intro conjI impI)
  show "generateHealthRecommendations lvl grp = generalMessages lvl @ groupMessages grp lvl"
    by (rule recommendations_table)
next
  assume "lvl \<in> set riskLevels"
  then show "(''Consider using a mask (N95 or better) when outdoors.''
            \<in> set (generateHealthRecommendations lvl ''respiratory''))
          = (lvl = ''moderate'' \<or> lvl = ''high'')"
    by (rule respiratory_mask)
next
  assume "lvl \<in> set riskLevels"
  then show "(''Contact healthcare provider if symptoms worsen.''
            \<in> set (generateHealthRecommendations lvl ''respiratory''))
          = (lvl = ''very_high'' \<or> lvl = ''severe'')"
    by (rule respiratory_contact)
next
  assume "100 < v \<and> v \<le> 150"
  then show "level (groupRisk v ''respiratory'' f) = ''moderate''"
    by (simp add: groupRisk_level specRiskLevel_def)
next
  assume "100 < v \<and> v \<le> 150"
  then show "recommendations (groupRisk v ''respiratory'' f) =
          [''Members of sensitive groups may experience health effects. The general public is less likely to be affected.'',
           ''Consider reducing prolonged or heavy outdoor exertion.'',
           ''Individuals with respiratory conditions should have medication readily available.'',
           ''Consider using a mask (N95 or better) when outdoors.'']"
    by (simp add: respiratory_moderate)
qed

theorem recommendations_decision_table_witness:
  "''high'' \<in> set riskLevels
   \<and> ''Consider using a mask (N95 or better) when outdoors.''
        \<in> set (generateHealthRecommendations ''high'' ''respiratory'')
   \<and> ''Contact healthcare provider if symptoms worsen.''
        \<notin> set (generateHealthRecommendations ''high'' ''respiratory'')
   \<and> (100::int) < 101 \<and> (101::int) \<le> 150
   \<and> level (groupRisk 101 ''respiratory'' 2) = ''moderate''
   \<and> ''Consider using a mask (N95 or better) when outdoors.''
        \<in> set (recommendations (groupRisk 101 ''respiratory'' 2))"
proof -
  note inst = recommendations_decision_table[of "''high''" "''respiratory''" 101 2]
  have l: "''high'' \<in> set riskLevels" by (simp add: riskLevels_def)
  have e: "''high'' = ''moderate'' \<or> ''high'' = ''high''" by simp
  have n: "\<not> (''high'' = ''very_high'' \<or> ''high'' = ''severe'')" by simp
  from inst l e have one: "''Consider using a mask (N95 or better) when outdoors.''
        \<in> set (generateHealthRecommendations ''high'' ''respiratory'')" by blast
  from inst l n have two: "''Contact healthcare provider if symptoms worsen.''
        \<notin> set (generateHealthRecommendations ''high'' ''respiratory'')" by blast
  have r: "(100::int) < 101 \<and> (101::int) \<le> 150" by simp
  with inst have three: "level (groupRisk 101 ''respiratory'' 2) = ''moderate''" by blast
  from inst r have "recommendations (groupRisk 101 ''respiratory'' 2) =
          [''Members of sensitive groups may experience health effects. The general public is less likely to be affected.'',
           ''Consider reducing prolonged or heavy outdoor exertion.'',
           ''Individuals with respiratory conditions should have medication readily available.'',
           ''Consider using a mask (N95 or better) when outdoors.'']" by blast
  then have four: "''Consider using a mask (N95 or better) when outdoors.''
        \<in> set (recommendations (groupRisk 101 ''respiratory'' 2))" by simp
  from l one two r three four show ?thesis by blast
qed

section \<open>Forecast confidence\<close>

lemma Math_round_eq_iff: "Math_round x = n \<longleftrightarrow> of_int n - 1 / 2 \<le> x \<and> x < of_int n + 1 / 2"
  unfolding Math_round_def floor_eq_iff by auto

lemma Math_round_mono: "x \<le> y \<Longrightarrow> Math_round x \<le> Math_round y"
  by (simp add: Math_round_def floor_mono)

lemma forecastLoop_map:
  "hour \<le> 49 \<Longrightarrow>
   forecastLoop currentAQI clock random hour hourly
     = hourly @ map (forecastHour currentAQI clock random) [hour..<49]"
proof (induction currentAQI clock random hour hourly rule: forecastLoop.induct)
  case (1 currentAQI clock random hour hourly)
  show ?case
  proof (cases "hour \<le> 48")
    case True
    then have "forecastLoop currentAQI clock random hour hourly
        = forecastLoop currentAQI clock random (hour + 1)
            (hourly @ [forecastHour currentAQI clock random hour])"
      by (subst forecastLoop.simps) simp
    also have "\<dots> = (hourly @ [forecastHour currentAQI clock random hour])
        @ map (forecastHour currentAQI clock random) [hour + 1..<49]"
      using True by (intro "1.IH") simp_all
    also have "\<dots> = hourly @ map (forecastHour currentAQI clock random) [hour..<49]"
      using True by (simp add: upt_conv_Cons)
    finally show ?thesis .
  next
    case False
    with "1.prems" have "hour = 49" by simp
    then show ?thesis by (subst forecastLoop.simps) simp
  qed
qed

lemma hourlyForecast_map:
  "hourlyForecast currentAQI clock random = map (forecastHour currentAQI clock random) [1..<49]"
proof -
  have "forecastLoop currentAQI clock random 1 []
      = [] @ map (forecastHour currentAQI clock random) [1..<49]"
    by (rule forecastLoop_map) simp
  then show ?thesis by (simp only: hourlyForecast_def append_Nil)
qed

lemma hourlyForecast_nth:
  assumes "1 \<le> h" "h \<le> 48"
  shows "hourlyForecast currentAQI clock random ! (h - 1) = forecastHour currentAQI clock random h"
proof -
  from assms have i: "1 + (h - 1) < 49" by simp
  then have l: "h - 1 < length [1..<49]" by (simp only: length_upt)
  have "map (forecastHour currentAQI clock random) [1..<49] ! (h - 1)
      = forecastHour currentAQI clock random ([1..<49] ! (h - 1))"
    using l by (rule nth_map)
  also have "[1..<49] ! (h - 1) = 1 + (h - 1)" using i by (rule nth_upt)
  also have "1 + (h - 1) = h" using assms(1) by simp
  finally show ?thesis by (simp only: hourlyForecast_map)
qed

lemma hourlyForecast_length: "length (hourlyForecast currentAQI clock random) = 48"
  by (simp only: hourlyForecast_map length_map length_upt)

lemma forecastHour_confidence:
  "confidence (forecastHour currentAQI clock random h) = Math_round (90 - (of_nat h / 48) * 30)"
  by (simp add: forecastHour_def Let_def)

text \<open>
  Claim C7. The forecast of a sensor has 48 points, and for every hour \<open>h\<close> from 1 to 48
  the confidence of the point of that hour is \<open>round (90 - (h / 48) * 30)\<close>, whatever
  the current AQI, the clock and the random noise are; it is 89 at \<open>h = 1\<close> and 60 at
  \<open>h = 48\<close>, and it does not increase with \<open>h\<close>.
\<close>

theorem forecast_confidence:
  "(1 \<le> h \<and> h \<le> 48 \<longrightarrow>
      confidence (hourlyForecast currentAQI clock random ! (h - 1))
        = round (90 - (of_nat h / 48) * 30 :: rat)
      \<and> (\<forall>h'. h \<le> h' \<and> h' \<le> 48 \<longrightarrow>
            confidence (hourlyForecast currentAQI clock random ! (h' - 1))
              \<le> confidence (hourlyForecast currentAQI clock random ! (h - 1))))
   \<and> length (hourlyForecast currentAQI clock random) = 48
   \<and> confidence (hourlyForecast currentAQI clock random ! 0) = 89
   \<and> confidence (hourlyForecast currentAQI clock random ! 47) = 60"
proof (intro conjI impI allI)
  assume h: "1 \<le> h \<and> h \<le> 48"
  then have "hourlyForecast currentAQI clock random ! (h - 1) = forecastHour currentAQI clock random h"
    by (simp only: hourlyForecast_nth)
  then show "confidence (hourlyForecast currentAQI clock random ! (h - 1))
        = round (90 - (of_nat h / 48) * 30 :: rat)"
    by (simp only: forecastHour_confidence Math_round_round)
next
  fix h'
  assume h: "1 \<le> h \<and> h \<le> 48" and h': "h \<le> h' \<and> h' \<le> 48"
  then have "(90 - (of_nat h' / 48) * 30 :: rat) \<le> 90 - (of_nat h / 48) * 30" by simp
  then have m: "Math_round (90 - (of_nat h' / 48) * 30) \<le> Math_round (90 - (of_nat h / 48) * 30)"
    by (rule Math_round_mono)
  from h h' have "1 \<le> h' \<and> h' \<le> 48" by simp
  then have "hourlyForecast currentAQI clock random ! (h' - 1) = forecastHour currentAQI clock random h'"
    by (simp only: hourlyForecast_nth)
  moreover from h have "hourlyForecast currentAQI clock random ! (h - 1) = forecastHour currentAQI clock random h"
    by (simp only: hourlyForecast_nth)
  ultimately show "confidence (hourlyForecast currentAQI clock random ! (h' - 1))
              \<le> confidence (hourlyForecast currentAQI clock random ! (h - 1))"
    using m by (simp only: forecastHour_confidence)
next
  show "length (hourlyForecast currentAQI clock random) = 48"
    by (rule hourlyForecast_length)
next
  have "hourlyForecast currentAQI clock random ! (1 - 1) = forecastHour currentAQI clock random 1"
    by (rule hourlyForecast_nth) simp_all
  then have "hourlyForecast currentAQI clock random ! 0 = forecastHour currentAQI clock random 1"
    by simp
  then show "confidence (hourlyForecast currentAQI clock random ! 0) = 89"
    by (simp add: forecastHour_confidence Math_round_eq_iff)
next
  have "hourlyForecast currentAQI clock random ! (48 - 1) = forecastHour currentAQI clock random 48"
    by (rule hourlyForecast_nth) simp_all
  then have "hourlyForecast currentAQI clock random ! 47 = forecastHour currentAQI clock random 48"
    by simp
  then show "confidence (hourlyForecast currentAQI clock random ! 47) = 60"
    by (simp add: forecastHour_confidence Math_round_eq_iff)
qed

theorem forecast_confidence_witness:
  "(1::nat) \<le> 4 \<and> (4::nat) \<le> 48 \<and> (4::nat) \<le> 5 \<and> (5::nat) \<le> 48
   \<and> confidence (hourlyForecast 60 (\<lambda>_. 8) (\<lambda>_. 1 / 2) ! 3) = 88
   \<and> confidence (hourlyForecast 60 (\<lambda>_. 8) (\<lambda>_. 1 / 2) ! 4)
       \<le> confidence (hourlyForecast 60 (\<lambda>_. 8) (\<lambda>_. 1 / 2) ! 3)"
proof -
  note inst = forecast_confidence[of 4 60 "\<lambda>_. 8" "\<lambda>_. 1 / 2"]
  have h: "(1::nat) \<le> 4 \<and> (4::nat) \<le> 48" by simp
  with inst have "confidence (hourlyForecast 60 (\<lambda>_. 8) (\<lambda>_. 1 / 2) ! (4 - 1))
      = round (90 - (of_nat 4 / 48) * 30 :: rat)" by blast
  moreover have "round (90 - (of_nat 4 / 48) * 30 :: rat) = 88"
    using Math_round_eq_iff[of "90 - (of_nat 4 / 48) * 30" 88] by (simp add: Math_round_round)
  ultimately have one: "confidence (hourlyForecast 60 (\<lambda>_. 8) (\<lambda>_. 1 / 2) ! 3) = 88" by simp
  have h': "(4::nat) \<le> 5 \<and> (5::nat) \<le> 48" by simp
  with inst h have "confidence (hourlyForecast 60 (\<lambda>_. 8) (\<lambda>_. 1 / 2) ! (5 - 1))
       \<le> confidence (hourlyForecast 60 (\<lambda>_. 8) (\<lambda>_. 1 / 2) ! (4 - 1))" by blast
  then have two: "confidence (hourlyForecast 60 (\<lambda>_. 8) (\<lambda>_. 1 / 2) ! 4)
       \<le> confidence (hourlyForecast 60 (\<lambda>_. 8) (\<lambda>_. 1 / 2) ! 3)" by simp
  from h h' one two show ?thesis by blast
qed

end
